theory Spec2Isabelle
  imports Main "HOL-Library.Word"
begin

section \<open>The environment: errors, the clock and the file system\<close>

text \<open>
  The program is the MQTT recorder \<^verbatim>\<open>mqtt-trace\<close>. Its two sinks, the line sink
  (\<^verbatim>\<open>main.go\<close>: \<^verbatim>\<open>FileWriter\<close>) and the JSON store sink (the second source file:
  \<^verbatim>\<open>MessageStore\<close>), are pure code around calls of the Go standard library: the clock,
  \<^verbatim>\<open>fmt.Sprintf\<close>, the \<^verbatim>\<open>os\<close> file operations and \<^verbatim>\<open>encoding/json\<close>.
  Those calls are the environment. Their results are inputs of the model (what each call of
  one sink invocation returns is given by a record of type \<open>sysres\<close>), and their effects
  are written into an explicit \<open>world\<close>: the files by path, the number of open file
  handles, and the trace of the system calls made so far.

  A value of Go's \<^verbatim>\<open>error\<close> built by \<^verbatim>\<open>fmt.Errorf\<close> is either a plain message or a
  message that wraps an underlying cause (\<^verbatim>\<open>%w\<close>). The type \<open>'e\<close> is the type of the
  causes the library reports.
\<close>

datatype 'e error = Plain string | Wrap string 'e

datatype 'e outcome = Done | Failed 'e

text \<open>
  A write either transfers the whole buffer or stops with an error after some number of
  bytes.
\<close>

datatype 'e written = Complete | Short nat 'e

record 'e sysres =
  now :: string
  open_res :: "'e outcome"
  write_res :: "'e written"
  close_res :: "'e outcome"

datatype syscall =
    SysOpenAppend string
  | SysCreate string
  | SysWrite string string
  | SysClose string

record world =
  files :: "string \<rightharpoonup> string"
  handles :: nat
  syscalls :: "syscall list"

definition contents :: "world \<Rightarrow> string \<Rightarrow> string" where
  "contents w p = (case files w p of None \<Rightarrow> [] | Some c \<Rightarrow> c)"

text \<open>
  \<^verbatim>\<open>os.OpenFile(path, os.O_APPEND|os.O_CREATE|os.O_WRONLY, 0644)\<close>: on success the file
  exists afterwards with the contents it had (empty when it is new) and one more handle is
  open; on failure nothing changes.
\<close>

definition os_OpenFile :: "'e outcome \<Rightarrow> string \<Rightarrow> world \<Rightarrow> 'e outcome \<times> world" where
  "os_OpenFile r p w =
     (case r of
        Failed e \<Rightarrow> (Failed e, w\<lparr>syscalls := syscalls w @ [SysOpenAppend p]\<rparr>)
      | Done \<Rightarrow>
          (Done, w\<lparr>files := (files w)(p \<mapsto> contents w p),
                   handles := Suc (handles w),
                   syscalls := syscalls w @ [SysOpenAppend p]\<rparr>))"

text \<open>\<^verbatim>\<open>os.Create(path)\<close>: on success the file exists afterwards and is empty.\<close>

definition os_Create :: "'e outcome \<Rightarrow> string \<Rightarrow> world \<Rightarrow> 'e outcome \<times> world" where
  "os_Create r p w =
     (case r of
        Failed e \<Rightarrow> (Failed e, w\<lparr>syscalls := syscalls w @ [SysCreate p]\<rparr>)
      | Done \<Rightarrow>
          (Done, w\<lparr>files := (files w)(p \<mapsto> []),
                   handles := Suc (handles w),
                   syscalls := syscalls w @ [SysCreate p]\<rparr>))"

text \<open>
  One write of the buffer \<open>b\<close> at the end of the file \<open>p\<close>: all of \<open>b\<close> arrives, or
  the first \<open>n\<close> bytes of it when the write stops short with an error.
\<close>

definition file_Write :: "'e written \<Rightarrow> string \<Rightarrow> string \<Rightarrow> world \<Rightarrow> 'e written \<times> world" where
  "file_Write r p b w =
     (r, w\<lparr>files := (files w)(p \<mapsto> contents w p @ (case r of Complete \<Rightarrow> b | Short n e \<Rightarrow> take n b)),
           syscalls := syscalls w @ [SysWrite p b]\<rparr>)"

text \<open>\<^verbatim>\<open>file.Close()\<close> releases the handle, whatever it returns.\<close>

definition file_Close :: "'e outcome \<Rightarrow> string \<Rightarrow> world \<Rightarrow> 'e outcome \<times> world" where
  "file_Close r p w =
     (r, w\<lparr>handles := handles w - 1, syscalls := syscalls w @ [SysClose p]\<rparr>)"


section \<open>The line sink (main.go)\<close>

text \<open>
  \<^verbatim>\<open>FileWriter\<close> holds a mutex and the path of the output file. The mutex has no state
  in a sequential model; the path is the whole state.
\<close>

record FileWriter =
  filePath :: string

definition NewFileWriter :: "string \<Rightarrow> FileWriter" where
  "NewFileWriter p = \<lparr>filePath = p\<rparr>"

text \<open>
  \<^verbatim>\<open>WriteMessage\<close>. The payload is Go's \<^verbatim>\<open>map[string]any\<close>, a map from strings to
  values of some type \<open>'v\<close>; \<open>fmtv\<close> is \<^verbatim>\<open>fmt.Sprintf("%v", _)\<close> on such a value. The
  deferred \<^verbatim>\<open>file.Close()\<close> runs on every return after a successful open, and its
  result is dropped. The function returns the error (\<open>None\<close> is Go's \<^verbatim>\<open>nil\<close>),
  the writer and the world after the call.
\<close>

definition WriteMessage ::
  "('v \<Rightarrow> string) \<Rightarrow> 'e sysres \<Rightarrow> FileWriter \<Rightarrow> (string \<rightharpoonup> 'v) \<Rightarrow> world
     \<Rightarrow> 'e error option \<times> FileWriter \<times> world" where
  "WriteMessage fmtv io fw payload w =
     (case os_OpenFile (open_res io) (filePath fw) w of
        (Failed err, w1) \<Rightarrow> (Some (Wrap ''failed to open output file: '' err), fw, w1)
      | (Done, w1) \<Rightarrow>
          (let date = now io;
               line = date;
               line = (case payload ''name'' of
                         Some name \<Rightarrow> line @ ''|name='' @ fmtv name
                       | None \<Rightarrow> line);
               line = (case payload ''rssi'' of
                         Some rssi \<Rightarrow> line @ ''|rssi='' @ fmtv rssi
                       | None \<Rightarrow> line);
               line = line @ ''\<newline>''
           in case file_Write (write_res io) (filePath fw) line w1 of
                (Short n err, w2) \<Rightarrow>
                  (Some (Wrap ''failed to write to file: '' err), fw,
                   snd (file_Close (close_res io) (filePath fw) w2))
              | (Complete, w2) \<Rightarrow>
                  (None, fw, snd (file_Close (close_res io) (filePath fw) w2))))"

text \<open>
  An inbound MQTT message: its topic and its payload bytes. The handler writes exactly one
  log line on each path; the model returns it as a value.
\<close>

record mqtt_Message =
  msg_Topic :: string
  msg_Payload :: string

datatype ('e, 'v) logged =
    LogUnmarshalError string 'e
  | LogSaveError "'e error"
  | LogReceived string
  | LogReceivedPayload string "string \<rightharpoonup> 'v"

text \<open>
  \<^verbatim>\<open>messageHandler(writer)\<close> of main.go; \<open>unmarshal\<close> is \<^verbatim>\<open>json.Unmarshal\<close> into a
  \<^verbatim>\<open>map[string]any\<close>: an error, or the decoded mapping.
\<close>

definition messageHandler ::
  "(string \<Rightarrow> 'e + (string \<rightharpoonup> 'v)) \<Rightarrow> ('v \<Rightarrow> string) \<Rightarrow> 'e sysres \<Rightarrow> FileWriter
     \<Rightarrow> mqtt_Message \<Rightarrow> world \<Rightarrow> ('e, 'v) logged \<times> FileWriter \<times> world" where
  "messageHandler unmarshal fmtv io writer msg w =
     (case unmarshal (msg_Payload msg) of
        Inl err \<Rightarrow> (LogUnmarshalError (msg_Topic msg) err, writer, w)
      | Inr payload \<Rightarrow>
          (case WriteMessage fmtv io writer payload w of
             (Some err, writer1, w1) \<Rightarrow> (LogSaveError err, writer1, w1)
           | (None, writer1, w1) \<Rightarrow> (LogReceived (msg_Topic msg), writer1, w1)))"


section \<open>The JSON store sink (second source file)\<close>

record 'v MessageRecord =
  Date :: string
  Payload :: "string \<rightharpoonup> 'v"

text \<open>
  \<^verbatim>\<open>MessageStore\<close>: the records in insertion order and the output path (the field
  \<^verbatim>\<open>filePath\<close> of the source, renamed because \<open>FileWriter\<close> has a field of that name).
\<close>

record 'v MessageStore =
  messages :: "'v MessageRecord list"
  store_filePath :: string

definition NewMessageStore :: "string \<Rightarrow> 'v MessageStore" where
  "NewMessageStore p = \<lparr>messages = [], store_filePath = p\<rparr>"

text \<open>
  \<^verbatim>\<open>encoder.Encode(v)\<close> of \<^verbatim>\<open>encoding/json\<close> marshals \<open>v\<close> into a buffer (\<open>enc\<close>: an
  error or the bytes) and, when that worked, writes the buffer to the file in one write.
\<close>

definition json_Encode ::
  "('a \<Rightarrow> 'e + string) \<Rightarrow> 'e written \<Rightarrow> string \<Rightarrow> 'a \<Rightarrow> world \<Rightarrow> 'e option \<times> world" where
  "json_Encode enc r p v w =
     (case enc v of
        Inl err \<Rightarrow> (Some err, w)
      | Inr b \<Rightarrow>
          (case file_Write r p b w of
             (Short n err, w1) \<Rightarrow> (Some err, w1)
           | (Complete, w1) \<Rightarrow> (None, w1)))"

definition saveToFile ::
  "('v MessageRecord list \<Rightarrow> 'e + string) \<Rightarrow> 'e sysres \<Rightarrow> 'v MessageStore \<Rightarrow> world
     \<Rightarrow> 'e error option \<times> world" where
  "saveToFile enc io ms w =
     (case os_Create (open_res io) (store_filePath ms) w of
        (Failed err, w1) \<Rightarrow> (Some (Wrap ''failed to create output file: '' err), w1)
      | (Done, w1) \<Rightarrow>
          (case json_Encode enc (write_res io) (store_filePath ms) (messages ms) w1 of
             (Some err, w2) \<Rightarrow>
               (Some (Wrap ''failed to encode JSON: '' err),
                snd (file_Close (close_res io) (store_filePath ms) w2))
           | (None, w2) \<Rightarrow>
               (None, snd (file_Close (close_res io) (store_filePath ms) w2))))"

definition AddMessage ::
  "('v MessageRecord list \<Rightarrow> 'e + string) \<Rightarrow> 'e sysres \<Rightarrow> 'v MessageStore
     \<Rightarrow> (string \<rightharpoonup> 'v) \<Rightarrow> world \<Rightarrow> 'e error option \<times> 'v MessageStore \<times> world" where
  "AddMessage enc io ms payload w =
     (let filteredPayload = Map.empty;
          filteredPayload = (case payload ''rssi'' of
                               Some rssi \<Rightarrow> filteredPayload(''rssi'' \<mapsto> rssi)
                             | None \<Rightarrow> filteredPayload);
          filteredPayload = (case payload ''name'' of
                               Some name \<Rightarrow> filteredPayload(''name'' \<mapsto> name)
                             | None \<Rightarrow> filteredPayload);
          record = \<lparr>Date = now io, Payload = filteredPayload\<rparr>;
          ms1 = ms\<lparr>messages := messages ms @ [record]\<rparr>
      in case saveToFile enc io ms1 w of (err, w1) \<Rightarrow> (err, ms1, w1))"

text \<open>
  \<^verbatim>\<open>messageHandler(store)\<close> of the second source file.
\<close>

definition messageHandler_store ::
  "(string \<Rightarrow> 'e + (string \<rightharpoonup> 'v)) \<Rightarrow> ('v MessageRecord list \<Rightarrow> 'e + string) \<Rightarrow> 'e sysres
     \<Rightarrow> 'v MessageStore \<Rightarrow> mqtt_Message \<Rightarrow> world
     \<Rightarrow> ('e, 'v) logged \<times> 'v MessageStore \<times> world" where
  "messageHandler_store unmarshal enc io store msg w =
     (case unmarshal (msg_Payload msg) of
        Inl err \<Rightarrow> (LogUnmarshalError (msg_Topic msg) err, store, w)
      | Inr payload \<Rightarrow>
          (case AddMessage enc io store payload w of
             (Some err, store1, w1) \<Rightarrow> (LogSaveError err, store1, w1)
           | (None, store1, w1) \<Rightarrow> (LogReceivedPayload (msg_Topic msg) payload, store1, w1)))"

text \<open>
  A run of sequential \<^verbatim>\<open>AddMessage\<close> calls, each with the results its system calls get
  and its payload; the errors returned are collected in call order.
\<close>

fun AddMessage_seq ::
  "('v MessageRecord list \<Rightarrow> 'e + string) \<Rightarrow> ('e sysres \<times> (string \<rightharpoonup> 'v)) list
     \<Rightarrow> 'v MessageStore \<Rightarrow> world \<Rightarrow> 'e error option list \<times> 'v MessageStore \<times> world" where
  "AddMessage_seq enc [] ms w = ([], ms, w)"
| "AddMessage_seq enc ((io, payload) # calls) ms w =
     (case AddMessage enc io ms payload w of
        (err, ms1, w1) \<Rightarrow>
          (case AddMessage_seq enc calls ms1 w1 of
             (errs, ms2, w2) \<Rightarrow> (err # errs, ms2, w2)))"


section \<open>Loading the configuration (both source files)\<close>

text \<open>
  \<^verbatim>\<open>Config\<close> and its nested struct \<^verbatim>\<open>MQTT\<close>. The field \<^verbatim>\<open>Port\<close> is a Go
  \<^verbatim>\<open>int\<close>: a 64-bit machine integer, read as a signed number.
\<close>

record MQTT =
  Broker :: string
  Port :: "64 word"
  Username :: string
  Password :: string
  Topics :: "string list"

record Config =
  MQTT :: MQTT
  OutputFile :: string

text \<open>
  The configuration library \<^verbatim>\<open>viper\<close> and the decoder \<^verbatim>\<open>mapstructure\<close> behind its
  \<^verbatim>\<open>Unmarshal\<close> are not part of the repository. The model keeps the part of the registry
  that \<^verbatim>\<open>loadConfig\<close> uses, after the library's documentation: settings by dotted key in
  two layers, the defaults registered by \<^verbatim>\<open>SetDefault\<close> and the settings read from the
  configuration file, where a key of the file takes precedence over a default.

  A setting is a Go value: a string, an integer, a list of strings, or any other value
  (a boolean, a float, a nested list, ...) of a type \<open>'y\<close> that stays open. \<open>rd\<close> stands
  for reading and parsing the file: an error, or the settings to which the file gives a
  value.
\<close>

datatype 'y cval = CString string | CInt int | CStrings "string list" | COther 'y

record 'y viper =
  v_configFile :: string
  v_configType :: string
  v_defaults :: "string \<rightharpoonup> 'y cval"
  v_config :: "string \<rightharpoonup> 'y cval"

text \<open>
  How a setting is converted into a field of a given Go type is the decoder's business: it
  converts between kinds where it can (the string \<^verbatim>\<open>8883\<close> into an integer field, an
  integer into a string field, a comma-separated string into a list of strings) and reports
  an error where it cannot. These conversions are parameters of the model, one for each
  field type of \<^verbatim>\<open>Config\<close>; each gets the key and the setting. \<open>join_errors\<close> builds the
  error that \<^verbatim>\<open>Unmarshal\<close> returns from the errors of the fields that failed.
\<close>

record ('y, 'e) mapstructure =
  to_string :: "string \<Rightarrow> 'y cval \<Rightarrow> 'e + string"
  to_int :: "string \<Rightarrow> 'y cval \<Rightarrow> 'e + 64 word"
  to_strings :: "string \<Rightarrow> 'y cval \<Rightarrow> 'e + string list"
  join_errors :: "'e list \<Rightarrow> 'e"

definition viper_SetConfigFile :: "string \<Rightarrow> 'y viper \<Rightarrow> 'y viper" where
  "viper_SetConfigFile p v = v\<lparr>v_configFile := p\<rparr>"

definition viper_SetConfigType :: "string \<Rightarrow> 'y viper \<Rightarrow> 'y viper" where
  "viper_SetConfigType t v = v\<lparr>v_configType := t\<rparr>"

definition viper_SetDefault :: "string \<Rightarrow> 'y cval \<Rightarrow> 'y viper \<Rightarrow> 'y viper" where
  "viper_SetDefault k x v = v\<lparr>v_defaults := (v_defaults v)(k \<mapsto> x)\<rparr>"

definition viper_ReadInConfig ::
  "(string \<Rightarrow> string \<Rightarrow> 'e + (string \<rightharpoonup> 'y cval)) \<Rightarrow> 'y viper \<Rightarrow> 'e option \<times> 'y viper" where
  "viper_ReadInConfig rd v =
     (case rd (v_configFile v) (v_configType v) of
        Inl err \<Rightarrow> (Some err, v)
      | Inr kv \<Rightarrow> (None, v\<lparr>v_config := kv\<rparr>))"

definition viper_find :: "'y viper \<Rightarrow> string \<Rightarrow> 'y cval option" where
  "viper_find v k = (case v_config v k of Some x \<Rightarrow> Some x | None \<Rightarrow> v_defaults v k)"

text \<open>
  Decoding one setting into a field of the struct: a key that is set nowhere leaves the
  field at Go's zero value; a setting that is there goes through the decoder's conversion
  for the field's type.
\<close>

definition field_string :: "('y, 'e) mapstructure \<Rightarrow> 'y viper \<Rightarrow> string \<Rightarrow> 'e + string" where
  "field_string dec v k =
     (case viper_find v k of
        None \<Rightarrow> Inr []
      | Some x \<Rightarrow> to_string dec k x)"

definition field_int :: "('y, 'e) mapstructure \<Rightarrow> 'y viper \<Rightarrow> string \<Rightarrow> 'e + 64 word" where
  "field_int dec v k =
     (case viper_find v k of
        None \<Rightarrow> Inr 0
      | Some x \<Rightarrow> to_int dec k x)"

definition field_strings ::
  "('y, 'e) mapstructure \<Rightarrow> 'y viper \<Rightarrow> string \<Rightarrow> 'e + string list" where
  "field_strings dec v k =
     (case viper_find v k of
        None \<Rightarrow> Inr []
      | Some x \<Rightarrow> to_strings dec k x)"

text \<open>
  The error of a field, if it has one, and the value a field ends with: the decoded value,
  or the zero value \<open>z\<close> when decoding failed.
\<close>

definition err_of :: "'e + 'a \<Rightarrow> 'e list" where
  "err_of r = (case r of Inl err \<Rightarrow> [err] | Inr x \<Rightarrow> [])"

definition val_of :: "'a \<Rightarrow> 'e + 'a \<Rightarrow> 'a" where
  "val_of z r = (case r of Inl err \<Rightarrow> z | Inr x \<Rightarrow> x)"

text \<open>
  \<^verbatim>\<open>viper.Unmarshal(&config)\<close>: each field of \<^verbatim>\<open>Config\<close> is decoded from the key its
  \<^verbatim>\<open>mapstructure\<close> tag names. The decoder goes through all fields and reports the errors
  of all that failed; with no error the struct holds the decoded values.
\<close>

definition viper_Unmarshal :: "('y, 'e) mapstructure \<Rightarrow> 'y viper \<Rightarrow> 'e + Config" where
  "viper_Unmarshal dec v =
     (let broker = field_string dec v ''mqtt.broker'';
          port = field_int dec v ''mqtt.port'';
          username = field_string dec v ''mqtt.username'';
          password = field_string dec v ''mqtt.password'';
          topics = field_strings dec v ''mqtt.topics'';
          output_file = field_string dec v ''output_file'';
          errs = err_of broker @ err_of port @ err_of username @ err_of password
                 @ err_of topics @ err_of output_file;
          mqtt = \<lparr>Broker = val_of [] broker, Port = val_of 0 port,
                  Username = val_of [] username, Password = val_of [] password,
                  Topics = val_of [] topics\<rparr>
      in case errs of
           [] \<Rightarrow> Inr \<lparr>MQTT = mqtt, OutputFile = val_of [] output_file\<rparr>
         | err # rest \<Rightarrow> Inl (join_errors dec errs))"

text \<open>
  \<^verbatim>\<open>loadConfig\<close> is the same function in both source files but for the default of
  \<^verbatim>\<open>output_file\<close>, which is the parameter \<open>dflt\<close> here. \<open>reg\<close> is the state of the
  library's global registry when the function is called.
\<close>

definition loadConfig_body ::
  "string \<Rightarrow> (string \<Rightarrow> string \<Rightarrow> 'e + (string \<rightharpoonup> 'y cval)) \<Rightarrow> ('y, 'e) mapstructure \<Rightarrow> string
     \<Rightarrow> 'y viper \<Rightarrow> ('e error + Config) \<times> 'y viper" where
  "loadConfig_body dflt rd dec configPath reg =
     (let v1 = viper_SetConfigFile configPath reg;
          v2 = viper_SetConfigType ''yaml'' v1;
          v3 = viper_SetDefault ''mqtt.port'' (CInt 1883) v2;
          v4 = viper_SetDefault ''output_file'' (CString dflt) v3
      in case viper_ReadInConfig rd v4 of
           (Some err, v5) \<Rightarrow> (Inl (Wrap ''failed to read config file: '' err), v5)
         | (None, v5) \<Rightarrow>
             (case viper_Unmarshal dec v5 of
                Inl err \<Rightarrow> (Inl (Wrap ''failed to unmarshal config: '' err), v5)
              | Inr config \<Rightarrow>
                  if Broker (MQTT config) = [] then
                    (Inl (Plain ''mqtt.broker is required''), v5)
                  else if length (Topics (MQTT config)) = 0 then
                    (Inl (Plain ''at least one mqtt.topic is required''), v5)
                  else (Inr config, v5)))"

text \<open>\<^verbatim>\<open>loadConfig\<close> of main.go (the line sink).\<close>

definition loadConfig ::
  "(string \<Rightarrow> string \<Rightarrow> 'e + (string \<rightharpoonup> 'y cval)) \<Rightarrow> ('y, 'e) mapstructure \<Rightarrow> string
     \<Rightarrow> 'y viper \<Rightarrow> ('e error + Config) \<times> 'y viper" where
  "loadConfig = loadConfig_body ''mqtt-trace.log''"

text \<open>\<^verbatim>\<open>loadConfig\<close> of the second source file (the JSON store sink).\<close>

definition loadConfig_store ::
  "(string \<Rightarrow> string \<Rightarrow> 'e + (string \<rightharpoonup> 'y cval)) \<Rightarrow> ('y, 'e) mapstructure \<Rightarrow> string
     \<Rightarrow> 'y viper \<Rightarrow> ('e error + Config) \<times> 'y viper" where
  "loadConfig_store = loadConfig_body ''mqtt-trace.json''"


section \<open>Concrete inputs\<close>

text \<open>
  Inputs for the worked examples: an empty file system; a call in which every system call
  succeeds, one in which the open is refused and one in which the write stops after four
  bytes; the payload of the specification's example scenario with one more key. In the
  examples values and error causes are strings, \<open>example_enc\<close> stands in for the JSON
  encoder (it writes the date of each record on a line), \<open>example_unmarshal\<close> for the
  JSON decoder (it accepts the empty object only) and \<open>example_dec\<close> for the decoder of
  settings (it converts the string \<^verbatim>\<open>8883\<close> into an integer, the empty string into
  the empty list of strings, and an integer into the 64-bit integer it is congruent to).
\<close>

definition example_world :: world where
  "example_world = \<lparr>files = Map.empty, handles = 0, syscalls = []\<rparr>"

definition example_io :: "string sysres" where
  "example_io = \<lparr>now = ''2024-01-15T10:30:45Z'', open_res = Done, write_res = Complete, close_res = Done\<rparr>"

definition example_io_denied :: "string sysres" where
  "example_io_denied = \<lparr>now = ''2024-01-15T10:31:15Z'', open_res = Failed ''permission denied'',
     write_res = Complete, close_res = Done\<rparr>"

definition example_io_short :: "string sysres" where
  "example_io_short = \<lparr>now = ''2024-01-15T10:32:00Z'', open_res = Done,
     write_res = Short 4 ''no space left on device'', close_res = Done\<rparr>"

definition example_payload :: "string \<rightharpoonup> string" where
  "example_payload = [''name'' \<mapsto> ''LYSD03MMC'', ''rssi'' \<mapsto> ''-65'', ''id'' \<mapsto> ''A4:C1:38'']"

definition example_enc :: "string MessageRecord list \<Rightarrow> string + string" where
  "example_enc rs = Inr (concat (map (\<lambda>r. Date r @ ''\<newline>'') rs))"

definition example_unmarshal :: "string \<Rightarrow> string + (string \<rightharpoonup> string)" where
  "example_unmarshal b =
     (if b = ''{}'' then Inr Map.empty else Inl ''invalid character'')"

definition example_viper :: "bool viper" where
  "example_viper = \<lparr>v_configFile = [], v_configType = [], v_defaults = Map.empty, v_config = Map.empty\<rparr>"

definition example_rd :: "string \<Rightarrow> string \<Rightarrow> string + (string \<rightharpoonup> bool cval)" where
  "example_rd path type =
     (if path = ''config.yaml'' \<and> type = ''yaml'' then
        Inr [''mqtt.broker'' \<mapsto> CString ''localhost'',
             ''mqtt.topics'' \<mapsto> CStrings [''+/+/BTtoMQTT/A4C138DBBC6F'']]
      else if path = ''weak.yaml'' \<and> type = ''yaml'' then
        Inr [''mqtt.broker'' \<mapsto> CString ''localhost'', ''mqtt.port'' \<mapsto> CString ''8883'',
             ''mqtt.topics'' \<mapsto> CString [], ''output_file'' \<mapsto> CString ''out.log'']
      else if path = ''big.yaml'' \<and> type = ''yaml'' then
        Inr [''mqtt.broker'' \<mapsto> CString ''localhost'',
             ''mqtt.port'' \<mapsto> CInt 9223372036854775808,
             ''mqtt.topics'' \<mapsto> CStrings [''#'']]
      else if path = ''empty.yaml'' \<and> type = ''yaml'' then Inr Map.empty
      else Inl ''no such file or directory'')"

definition example_dec :: "(bool, string) mapstructure" where
  "example_dec =
     \<lparr>to_string = (\<lambda>k x. case x of CString s \<Rightarrow> Inr s | _ \<Rightarrow> Inl (''cannot decode '' @ k)),
      to_int = (\<lambda>k x. case x of
                  CInt i \<Rightarrow> Inr (word_of_int i)
                | CString s \<Rightarrow> if s = ''8883'' then Inr 8883 else Inl (''cannot decode '' @ k)
                | _ \<Rightarrow> Inl (''cannot decode '' @ k)),
      to_strings = (\<lambda>k x. case x of
                  CStrings ss \<Rightarrow> Inr ss
                | CString s \<Rightarrow> if s = [] then Inr [] else Inr [s]
                | _ \<Rightarrow> Inl (''cannot decode '' @ k)),
      join_errors = concat\<rparr>"


section \<open>What one call of each sink does\<close>

text \<open>
  The result of \<^verbatim>\<open>WriteMessage\<close> and of \<^verbatim>\<open>saveToFile\<close> on each path, the record
  that \<^verbatim>\<open>AddMessage\<close> appends, and the store after a run of calls.
\<close>

lemma WriteMessage_open_failed:
  "open_res io = Failed e \<Longrightarrow>
   WriteMessage fmtv io fw payload w =
     (Some (Wrap ''failed to open output file: '' e), fw,
      w\<lparr>syscalls := syscalls w @ [SysOpenAppend (filePath fw)]\<rparr>)"
  by (simp add: WriteMessage_def os_OpenFile_def)

lemma WriteMessage_opened:
  "open_res io = Done \<Longrightarrow>
   line = now io @ (case payload ''name'' of None \<Rightarrow> [] | Some n \<Rightarrow> ''|name='' @ fmtv n)
            @ (case payload ''rssi'' of None \<Rightarrow> [] | Some r \<Rightarrow> ''|rssi='' @ fmtv r) @ ''\<newline>'' \<Longrightarrow>
   WriteMessage fmtv io fw payload w =
     ((case write_res io of Complete \<Rightarrow> None
         | Short n e \<Rightarrow> Some (Wrap ''failed to write to file: '' e)),
      fw,
      w\<lparr>files := (files w)(filePath fw \<mapsto>
               contents w (filePath fw) @
                 (case write_res io of Complete \<Rightarrow> line | Short n e \<Rightarrow> take n line)),
        syscalls := syscalls w @ [SysOpenAppend (filePath fw), SysWrite (filePath fw) line,
                                  SysClose (filePath fw)]\<rparr>)"
  by (simp add: WriteMessage_def os_OpenFile_def file_Write_def file_Close_def contents_def Let_def
      split: option.splits written.splits)

lemma WriteMessage_error:
  "fst (WriteMessage fmtv io fw payload w) =
     (case open_res io of
        Failed e \<Rightarrow> Some (Wrap ''failed to open output file: '' e)
      | Done \<Rightarrow>
          (case write_res io of
             Short n e \<Rightarrow> Some (Wrap ''failed to write to file: '' e)
           | Complete \<Rightarrow> None))"
  by (cases "open_res io")
     (simp_all add: WriteMessage_open_failed WriteMessage_opened split: written.splits)

lemma WriteMessage_syscalls_grow:
  "syscalls (snd (snd (WriteMessage fmtv io fw payload w))) \<noteq> syscalls w"
  by (cases "open_res io") (simp_all add: WriteMessage_open_failed WriteMessage_opened)

lemma saveToFile_create_failed:
  "open_res io = Failed e \<Longrightarrow>
   saveToFile enc io ms w =
     (Some (Wrap ''failed to create output file: '' e),
      w\<lparr>syscalls := syscalls w @ [SysCreate (store_filePath ms)]\<rparr>)"
  by (simp add: saveToFile_def os_Create_def)

lemma saveToFile_marshal_failed:
  "open_res io = Done \<Longrightarrow> enc (messages ms) = Inl e \<Longrightarrow>
   saveToFile enc io ms w =
     (Some (Wrap ''failed to encode JSON: '' e),
      w\<lparr>files := (files w)(store_filePath ms \<mapsto> []),
        syscalls := syscalls w @ [SysCreate (store_filePath ms), SysClose (store_filePath ms)]\<rparr>)"
  by (simp add: saveToFile_def os_Create_def json_Encode_def file_Close_def)

lemma saveToFile_written:
  "open_res io = Done \<Longrightarrow> enc (messages ms) = Inr b \<Longrightarrow>
   saveToFile enc io ms w =
     ((case write_res io of Complete \<Rightarrow> None
         | Short n e \<Rightarrow> Some (Wrap ''failed to encode JSON: '' e)),
      w\<lparr>files := (files w)(store_filePath ms \<mapsto>
               (case write_res io of Complete \<Rightarrow> b | Short n e \<Rightarrow> take n b)),
        syscalls := syscalls w @ [SysCreate (store_filePath ms), SysWrite (store_filePath ms) b,
                                  SysClose (store_filePath ms)]\<rparr>)"
  by (simp add: saveToFile_def os_Create_def json_Encode_def file_Write_def file_Close_def
      contents_def split: written.splits)

lemma saveToFile_error:
  "fst (saveToFile enc io ms w) =
     (case open_res io of
        Failed e \<Rightarrow> Some (Wrap ''failed to create output file: '' e)
      | Done \<Rightarrow>
          (case enc (messages ms) of
             Inl e \<Rightarrow> Some (Wrap ''failed to encode JSON: '' e)
           | Inr b \<Rightarrow>
               (case write_res io of
                  Short n e \<Rightarrow> Some (Wrap ''failed to encode JSON: '' e)
                | Complete \<Rightarrow> None)))"
  by (cases "open_res io"; cases "enc (messages ms)")
     (simp_all add: saveToFile_create_failed saveToFile_marshal_failed saveToFile_written
        split: written.splits)

lemma saveToFile_syscalls_grow:
  "syscalls (snd (saveToFile enc io ms w)) \<noteq> syscalls w"
  by (cases "open_res io"; cases "enc (messages ms)")
     (simp_all add: saveToFile_create_failed saveToFile_marshal_failed saveToFile_written)

lemma filtered_restrict:
  "(case payload ''name'' of
      None \<Rightarrow> (case payload ''rssi'' of None \<Rightarrow> Map.empty | Some rssi \<Rightarrow> [''rssi'' \<mapsto> rssi])
    | Some name \<Rightarrow> (case payload ''rssi'' of None \<Rightarrow> Map.empty | Some rssi \<Rightarrow> [''rssi'' \<mapsto> rssi])(''name'' \<mapsto> name))
   = payload |` {''name'', ''rssi''}"
  by (rule ext) (simp add: restrict_map_def split: option.splits)

lemma AddMessage_store:
  "fst (snd (AddMessage enc io ms payload w)) =
     ms\<lparr>messages := messages ms @ [\<lparr>Date = now io, Payload = payload |` {''name'', ''rssi''}\<rparr>]\<rparr>"
  by (simp add: AddMessage_def Let_def filtered_restrict [symmetric] split: prod.splits option.splits)

lemma AddMessage_save:
  "AddMessage enc io ms payload w =
     (fst (saveToFile enc io (fst (snd (AddMessage enc io ms payload w))) w),
      fst (snd (AddMessage enc io ms payload w)),
      snd (saveToFile enc io (fst (snd (AddMessage enc io ms payload w))) w))"
  by (simp add: AddMessage_def Let_def split: prod.splits)

lemma AddMessage_error:
  "fst (AddMessage enc io ms payload w) =
     fst (saveToFile enc io (fst (snd (AddMessage enc io ms payload w))) w)"
  using AddMessage_save [of enc io ms payload w] by (metis fst_conv)

lemma AddMessage_syscalls_grow:
  "syscalls (snd (snd (AddMessage enc io ms payload w))) \<noteq> syscalls w"
  using AddMessage_save [of enc io ms payload w]
    saveToFile_syscalls_grow [of enc io "fst (snd (AddMessage enc io ms payload w))" w]
  by (metis snd_conv)

lemma AddMessage_seq_store:
  "fst (snd (AddMessage_seq enc calls ms w)) =
     ms\<lparr>messages := messages ms @
          map (\<lambda>(io, payload). \<lparr>Date = now io, Payload = payload |` {''name'', ''rssi''}\<rparr>) calls\<rparr>"
proof (induction calls arbitrary: ms w)
  case Nil
  show ?case by simp
next
  case (Cons c calls)
  obtain io payload where c: "c = (io, payload)" by (cases c)
  obtain err ms1 w1 where a: "AddMessage enc io ms payload w = (err, ms1, w1)"
    by (cases "AddMessage enc io ms payload w")
  have ms1: "ms1 = ms\<lparr>messages := messages ms @
      [\<lparr>Date = now io, Payload = payload |` {''name'', ''rssi''}\<rparr>]\<rparr>"
    using AddMessage_store [of enc io ms payload w] a by simp
  obtain errs ms2 w2 where r: "AddMessage_seq enc calls ms1 w1 = (errs, ms2, w2)"
    by (cases "AddMessage_seq enc calls ms1 w1")
  have "ms2 = ms1\<lparr>messages := messages ms1 @
      map (\<lambda>(io, payload). \<lparr>Date = now io, Payload = payload |` {''name'', ''rssi''}\<rparr>) calls\<rparr>"
    using Cons.IH [of ms1 w1] r by simp
  moreover have "AddMessage_seq enc (c # calls) ms w = (err # errs, ms2, w2)"
    by (simp add: c a r)
  ultimately show ?case
    by (simp add: ms1 c)
qed

lemma AddMessage_seq_path:
  "store_filePath (fst (snd (AddMessage_seq enc calls ms w))) = store_filePath ms"
  by (simp add: AddMessage_seq_store)

lemma AddMessage_seq_snoc:
  "AddMessage_seq enc (calls @ [(io, payload)]) ms w =
     (case AddMessage_seq enc calls ms w of
        (errs, ms1, w1) \<Rightarrow>
          (case AddMessage enc io ms1 payload w1 of
             (err, ms2, w2) \<Rightarrow> (errs @ [err], ms2, w2)))"
  by (induction calls arbitrary: ms w) (auto split: prod.splits)


section \<open>What loadConfig does after a successful read\<close>

lemma loadConfig_body_after_read:
  assumes "rd configPath ''yaml'' = Inr kv"
  shows "loadConfig_body dflt rd dec configPath reg =
     (let v5 = reg\<lparr>v_configFile := configPath, v_configType := ''yaml'',
                  v_defaults := (v_defaults reg)(''mqtt.port'' \<mapsto> CInt 1883,
                                               ''output_file'' \<mapsto> CString dflt),
                  v_config := kv\<rparr>
      in case viper_Unmarshal dec v5 of
           Inl err \<Rightarrow> (Inl (Wrap ''failed to unmarshal config: '' err), v5)
         | Inr config \<Rightarrow>
             if Broker (MQTT config) = [] then (Inl (Plain ''mqtt.broker is required''), v5)
             else if Topics (MQTT config) = [] then
               (Inl (Plain ''at least one mqtt.topic is required''), v5)
             else (Inr config, v5))"
  using assms
  by (simp add: loadConfig_body_def viper_SetConfigFile_def viper_SetConfigType_def
      viper_SetDefault_def viper_ReadInConfig_def Let_def split: sum.splits)

lemma err_of_Nil:
  "err_of r = [] \<Longrightarrow> r = Inr (val_of z r)"
  by (cases r) (simp_all add: err_of_def val_of_def)

lemma viper_Unmarshal_fields:
  assumes "viper_Unmarshal dec v = Inr cfg"
  shows "field_int dec v ''mqtt.port'' = Inr (Port (MQTT cfg))"
    and "field_string dec v ''output_file'' = Inr (OutputFile cfg)"
    and "field_string dec v ''mqtt.broker'' = Inr (Broker (MQTT cfg))"
    and "field_strings dec v ''mqtt.topics'' = Inr (Topics (MQTT cfg))"
  using assms
  by (auto simp: viper_Unmarshal_def Let_def err_of_Nil [symmetric] split: list.splits)


section \<open>The claims\<close>

text \<open>
  Two properties of the specification are outside this model. The mutual exclusion of
  concurrent calls (C8) is a property of interleavings, and the model is sequential. The
  round trip of the output file through a JSON decoder (C4) is a property of
  \<^verbatim>\<open>encoding/json\<close>, which is a parameter here.
\<close>

text \<open>
  C1. Line sink, format of the output line. Once the file is open, the buffer that
  \<^verbatim>\<open>WriteMessage\<close> hands to the write is the timestamp, then \<^verbatim>\<open>|name=<name>\<close> exactly
  when the payload has the key \<^verbatim>\<open>name\<close>, then \<^verbatim>\<open>|rssi=<rssi>\<close> exactly when it has
  the key \<^verbatim>\<open>rssi\<close>, then one newline, and nothing else; when the write completes, the
  file is its old contents followed by that line. For a payload with neither key the line is
  the timestamp and the newline.
\<close>

theorem WriteMessage_line_format:
  fixes payload :: "string \<rightharpoonup> 'v" and fmtv :: "'v \<Rightarrow> string" and io :: "'e sysres"
  defines "line \<equiv> now io
     @ (if ''name'' \<in> dom payload then ''|name='' @ fmtv (the (payload ''name'')) else [])
     @ (if ''rssi'' \<in> dom payload then ''|rssi='' @ fmtv (the (payload ''rssi'')) else [])
     @ ''\<newline>''"
  assumes opened: "open_res io = Done"
  shows "syscalls (snd (snd (WriteMessage fmtv io fw payload w))) =
           syscalls w @ [SysOpenAppend (filePath fw), SysWrite (filePath fw) line,
                         SysClose (filePath fw)]
       \<and> (write_res io = Complete \<longrightarrow>
            files (snd (snd (WriteMessage fmtv io fw payload w))) (filePath fw) =
              Some (contents w (filePath fw) @ line))
       \<and> (''name'' \<notin> dom payload \<and> ''rssi'' \<notin> dom payload \<longrightarrow>
            syscalls (snd (snd (WriteMessage fmtv io fw payload w))) =
              syscalls w @ [SysOpenAppend (filePath fw),
                            SysWrite (filePath fw) (now io @ ''\<newline>''),
                            SysClose (filePath fw)])"
proof -
  have l: "line = now io @ (case payload ''name'' of None \<Rightarrow> [] | Some n \<Rightarrow> ''|name='' @ fmtv n)
            @ (case payload ''rssi'' of None \<Rightarrow> [] | Some r \<Rightarrow> ''|rssi='' @ fmtv r) @ ''\<newline>''"
    by (auto simp: line_def dom_def split: option.splits)
  show ?thesis
    using WriteMessage_opened [OF opened l, of fw w]
    by (auto simp: line_def)
qed

theorem WriteMessage_line_format_witness:
  "files (snd (snd (WriteMessage (\<lambda>s. s) example_io (NewFileWriter ''mqtt-trace.log'')
       example_payload example_world))) ''mqtt-trace.log''
     = Some ''2024-01-15T10:30:45Z|name=LYSD03MMC|rssi=-65\<newline>''
   \<and> files (snd (snd (WriteMessage (\<lambda>s. s) example_io (NewFileWriter ''mqtt-trace.log'')
       [''rssi'' \<mapsto> ''-67''] example_world))) ''mqtt-trace.log''
     = Some ''2024-01-15T10:30:45Z|rssi=-67\<newline>''
   \<and> syscalls (snd (snd (WriteMessage (\<lambda>s. s) example_io (NewFileWriter ''mqtt-trace.log'')
       [''id'' \<mapsto> ''A4:C1:38''] example_world)))
     = [SysOpenAppend ''mqtt-trace.log'',
        SysWrite ''mqtt-trace.log'' ''2024-01-15T10:30:45Z\<newline>'',
        SysClose ''mqtt-trace.log'']"
proof -
  have h: "open_res example_io = Done" by (simp add: example_io_def)
  show ?thesis
    using WriteMessage_line_format [OF h, of "\<lambda>s. s" "NewFileWriter ''mqtt-trace.log''"
        example_payload example_world]
      WriteMessage_line_format [OF h, of "\<lambda>s. s" "NewFileWriter ''mqtt-trace.log''"
        "[''rssi'' \<mapsto> ''-67'']" example_world]
      WriteMessage_line_format [OF h, of "\<lambda>s. s" "NewFileWriter ''mqtt-trace.log''"
        "[''id'' \<mapsto> ''A4:C1:38'']" example_world]
    by (simp add: example_io_def example_payload_def example_world_def NewFileWriter_def
        contents_def)
qed

text \<open>
  C2. JSON store sink, count and order of the records. After any run of sequential
  \<^verbatim>\<open>AddMessage\<close> calls on a new store, whatever the file operations returned, the
  records in memory are one per call, in call order, the i-th with the timestamp of the i-th
  call and the i-th payload restricted to \<^verbatim>\<open>name\<close> and \<^verbatim>\<open>rssi\<close>. When the file
  operations of the last call succeed, that call returns no error and the output file holds
  the encoding of exactly this sequence.
\<close>

theorem AddMessage_seq_records:
  fixes calls :: "('e sysres \<times> (string \<rightharpoonup> 'v)) list"
    and enc :: "'v MessageRecord list \<Rightarrow> 'e + string" and p :: string and w :: world
  defines "records \<equiv>
     map (\<lambda>(io, payload). \<lparr>Date = now io, Payload = payload |` {''name'', ''rssi''}\<rparr>) calls"
  defines "result \<equiv> AddMessage_seq enc calls (NewMessageStore p) w"
  shows "messages (fst (snd result)) = records
       \<and> length (messages (fst (snd result))) = length calls
       \<and> (\<forall>i < length calls.
            messages (fst (snd result)) ! i =
              \<lparr>Date = now (fst (calls ! i)), Payload = snd (calls ! i) |` {''name'', ''rssi''}\<rparr>)
       \<and> (\<forall>b. calls \<noteq> [] \<and> open_res (fst (last calls)) = Done
              \<and> enc records = Inr b \<and> write_res (fst (last calls)) = Complete \<longrightarrow>
            last (fst result) = None \<and> files (snd (snd result)) p = Some b)"
proof -
  have m: "messages (fst (snd result)) = records"
    by (simp add: result_def records_def AddMessage_seq_store NewMessageStore_def)
  have n: "\<forall>i < length calls.
            messages (fst (snd result)) ! i =
              \<lparr>Date = now (fst (calls ! i)), Payload = snd (calls ! i) |` {''name'', ''rssi''}\<rparr>"
    by (simp add: m records_def split_beta)
  have f: "last (fst result) = None \<and> files (snd (snd result)) p = Some b"
    if ne: "calls \<noteq> []" and o: "open_res (fst (last calls)) = Done"
      and e: "enc records = Inr b" and c: "write_res (fst (last calls)) = Complete" for b
  proof -
    obtain cs io payload where calls: "calls = cs @ [(io, payload)]"
      using ne by (cases calls rule: rev_cases) auto
    obtain errs ms1 w1 where r1: "AddMessage_seq enc cs (NewMessageStore p) w = (errs, ms1, w1)"
      by (cases "AddMessage_seq enc cs (NewMessageStore p) w")
    obtain err ms2 w2 where a: "AddMessage enc io ms1 payload w1 = (err, ms2, w2)"
      by (cases "AddMessage enc io ms1 payload w1")
    have sv: "saveToFile enc io ms2 w1 = (err, w2)"
      using AddMessage_save [of enc io ms1 payload w1] by (auto simp: a prod_eq_iff)
    have res: "result = (errs @ [err], ms2, w2)"
      by (simp add: result_def calls AddMessage_seq_snoc r1 a)
    have "messages ms2 = records" using m by (simp add: res)
    moreover have "store_filePath ms2 = p"
      using AddMessage_seq_path [of enc calls "NewMessageStore p" w] res
      by (simp add: result_def NewMessageStore_def)
    moreover have "open_res io = Done" "write_res io = Complete" using o c by (simp_all add: calls)
    ultimately have "saveToFile enc io ms2 w1 =
        (None, w1\<lparr>files := (files w1)(p \<mapsto> b),
                  syscalls := syscalls w1 @ [SysCreate p, SysWrite p b, SysClose p]\<rparr>)"
      using saveToFile_written [of io enc ms2 b w1] e by simp
    then show ?thesis by (simp add: res sv)
  qed
  show ?thesis using m n f by (simp add: records_def)
qed

theorem AddMessage_seq_records_witness:
  "messages (fst (snd (AddMessage_seq example_enc
       [(example_io_denied, example_payload), (example_io, Map.empty)]
       (NewMessageStore ''mqtt-trace.json'') example_world)))
     = [\<lparr>Date = ''2024-01-15T10:31:15Z'', Payload = example_payload |` {''name'', ''rssi''}\<rparr>,
        \<lparr>Date = ''2024-01-15T10:30:45Z'', Payload = Map.empty\<rparr>]
   \<and> files (snd (snd (AddMessage_seq example_enc
       [(example_io_denied, example_payload), (example_io, Map.empty)]
       (NewMessageStore ''mqtt-trace.json'') example_world))) ''mqtt-trace.json''
     = Some ''2024-01-15T10:31:15Z\<newline>2024-01-15T10:30:45Z\<newline>''"
  using AddMessage_seq_records [where calls = "[(example_io_denied, example_payload), (example_io, Map.empty)]"
      and enc = example_enc and p = "''mqtt-trace.json''" and w = example_world]
  by (simp add: example_enc_def example_io_def example_io_denied_def)

text \<open>
  C3. The filtered payload is the payload restricted to the keys \<^verbatim>\<open>name\<close> and
  \<^verbatim>\<open>rssi\<close>: each of the two keys is present in the stored record exactly when it is
  present in the input, with the same value; no other key is present; a key that is absent
  from the input is absent from the record; and a payload with neither key still adds a
  record, whose filtered payload is empty.
\<close>

theorem AddMessage_filter_exact:
  fixes payload :: "string \<rightharpoonup> 'v" and ms :: "'v MessageStore"
    and enc :: "'v MessageRecord list \<Rightarrow> 'e + string" and io :: "'e sysres" and w :: world
  defines "stored \<equiv> messages (fst (snd (AddMessage enc io ms payload w)))"
  shows "length stored = Suc (length (messages ms))
       \<and> Payload (last stored) = payload |` {''name'', ''rssi''}
       \<and> (''name'' \<in> dom (Payload (last stored))) = (''name'' \<in> dom payload)
       \<and> Payload (last stored) ''name'' = payload ''name''
       \<and> (''rssi'' \<in> dom (Payload (last stored))) = (''rssi'' \<in> dom payload)
       \<and> Payload (last stored) ''rssi'' = payload ''rssi''
       \<and> (\<forall>k. k \<noteq> ''name'' \<and> k \<noteq> ''rssi'' \<longrightarrow> Payload (last stored) k = None)
       \<and> (''name'' \<notin> dom payload \<and> ''rssi'' \<notin> dom payload \<longrightarrow>
            Payload (last stored) = Map.empty)"
proof -
  have s: "stored = messages ms @ [\<lparr>Date = now io, Payload = payload |` {''name'', ''rssi''}\<rparr>]"
    by (simp add: stored_def AddMessage_store)
  have e: "payload |` {''name'', ''rssi''} = Map.empty"
    if "''name'' \<notin> dom payload \<and> ''rssi'' \<notin> dom payload"
    using that by (auto simp: restrict_map_def dom_def)
  show ?thesis
    using e by (simp add: s restrict_map_def dom_def)
qed

theorem AddMessage_filter_exact_witness:
  "Payload (last (messages (fst (snd (AddMessage example_enc example_io
       (NewMessageStore ''mqtt-trace.json'') example_payload example_world))))) ''id'' = None
   \<and> Payload (last (messages (fst (snd (AddMessage example_enc example_io
       (NewMessageStore ''mqtt-trace.json'') example_payload example_world))))) ''rssi''
       = Some ''-65''
   \<and> Payload (last (messages (fst (snd (AddMessage example_enc example_io
       (NewMessageStore ''mqtt-trace.json'') [''id'' \<mapsto> ''A4:C1:38''] example_world)))))
       = Map.empty"
  using AddMessage_filter_exact [of example_enc example_io "NewMessageStore ''mqtt-trace.json''"
      example_payload example_world]
    AddMessage_filter_exact [of example_enc example_io "NewMessageStore ''mqtt-trace.json''"
      "[''id'' \<mapsto> ''A4:C1:38'']" example_world]
  by (simp add: example_payload_def)

text \<open>
  C5. A failed write keeps the record in memory. When \<^verbatim>\<open>AddMessage\<close> returns an error,
  the store is the old store with the new record appended, and it equals the store after
  any call with the same payload and timestamp that returns no error.
\<close>

theorem AddMessage_retained_on_failure:
  assumes "fst (AddMessage enc io ms payload w) = Some err"
  shows "fst (snd (AddMessage enc io ms payload w)) =
           ms\<lparr>messages := messages ms @
                [\<lparr>Date = now io, Payload = payload |` {''name'', ''rssi''}\<rparr>]\<rparr>
       \<and> (now io' = now io \<and> fst (AddMessage enc' io' ms payload w') = None \<longrightarrow>
            fst (snd (AddMessage enc io ms payload w)) =
              fst (snd (AddMessage enc' io' ms payload w')))"
  by (simp add: AddMessage_store)

theorem AddMessage_retained_on_failure_witness:
  "fst (AddMessage example_enc example_io_denied (NewMessageStore ''mqtt-trace.json'')
          example_payload example_world)
     = Some (Wrap ''failed to create output file: '' ''permission denied'')
   \<and> messages (fst (snd (AddMessage example_enc example_io_denied
          (NewMessageStore ''mqtt-trace.json'') example_payload example_world)))
     = [\<lparr>Date = ''2024-01-15T10:31:15Z'', Payload = example_payload |` {''name'', ''rssi''}\<rparr>]
   \<and> fst (AddMessage example_enc (example_io_denied\<lparr>open_res := Done\<rparr>)
          (NewMessageStore ''mqtt-trace.json'') example_payload example_world) = None
   \<and> fst (snd (AddMessage example_enc example_io_denied
          (NewMessageStore ''mqtt-trace.json'') example_payload example_world))
     = fst (snd (AddMessage example_enc (example_io_denied\<lparr>open_res := Done\<rparr>)
          (NewMessageStore ''mqtt-trace.json'') example_payload example_world))"
proof -
  have h: "fst (AddMessage example_enc example_io_denied (NewMessageStore ''mqtt-trace.json'')
          example_payload example_world)
     = Some (Wrap ''failed to create output file: '' ''permission denied'')"
    by (simp add: AddMessage_error saveToFile_error example_io_denied_def)
  have ok: "fst (AddMessage example_enc (example_io_denied\<lparr>open_res := Done\<rparr>)
          (NewMessageStore ''mqtt-trace.json'') example_payload example_world) = None"
    by (simp add: AddMessage_error saveToFile_error example_io_denied_def example_enc_def)
  show ?thesis
    using AddMessage_retained_on_failure [OF h, where io' = "example_io_denied\<lparr>open_res := Done\<rparr>"
        and enc' = example_enc and w' = example_world] h ok
    by (auto simp add: example_io_denied_def NewMessageStore_def)
qed

text \<open>
  C6. Error propagation. Each sink returns an error exactly when its open (or create) step
  or its write (or encode) step fails; the error wraps the cause the failing step reported,
  under a message of its own for each step; otherwise it returns no error. Every path of
  either function returns: the functions of the model are total, and each branch of the
  source ends in a \<^verbatim>\<open>return\<close>. The error of \<^verbatim>\<open>AddMessage\<close> is that of
  \<^verbatim>\<open>saveToFile\<close> on the store with the new record.
\<close>

theorem sink_error_propagation:
  "fst (WriteMessage fmtv io fw payload w) =
     (case open_res io of
        Failed e \<Rightarrow> Some (Wrap ''failed to open output file: '' e)
      | Done \<Rightarrow>
          (case write_res io of
             Short n e \<Rightarrow> Some (Wrap ''failed to write to file: '' e)
           | Complete \<Rightarrow> None))
   \<and> (fst (WriteMessage fmtv io fw payload w) = None) =
       (open_res io = Done \<and> write_res io = Complete)
   \<and> fst (saveToFile enc io ms w) =
     (case open_res io of
        Failed e \<Rightarrow> Some (Wrap ''failed to create output file: '' e)
      | Done \<Rightarrow>
          (case enc (messages ms) of
             Inl e \<Rightarrow> Some (Wrap ''failed to encode JSON: '' e)
           | Inr b \<Rightarrow>
               (case write_res io of
                  Short n e \<Rightarrow> Some (Wrap ''failed to encode JSON: '' e)
                | Complete \<Rightarrow> None)))
   \<and> (fst (saveToFile enc io ms w) = None) =
       (open_res io = Done \<and> (\<exists>b. enc (messages ms) = Inr b) \<and> write_res io = Complete)
   \<and> fst (AddMessage enc io ms payload' w) =
       fst (saveToFile enc io
         (ms\<lparr>messages := messages ms @
              [\<lparr>Date = now io, Payload = payload' |` {''name'', ''rssi''}\<rparr>]\<rparr>) w)"
proof -
  have a: "(fst (WriteMessage fmtv io fw payload w) = None) =
       (open_res io = Done \<and> write_res io = Complete)"
    by (simp add: WriteMessage_error split: outcome.splits written.splits)
  have b: "(fst (saveToFile enc io ms w) = None) =
       (open_res io = Done \<and> (\<exists>b. enc (messages ms) = Inr b) \<and> write_res io = Complete)"
    by (simp add: saveToFile_error split: outcome.splits written.splits sum.splits)
  have c: "fst (AddMessage enc io ms payload' w) =
       fst (saveToFile enc io
         (ms\<lparr>messages := messages ms @
              [\<lparr>Date = now io, Payload = payload' |` {''name'', ''rssi''}\<rparr>]\<rparr>) w)"
    using AddMessage_error [of enc io ms payload' w] by (simp add: AddMessage_store)
  show ?thesis
    using a b c WriteMessage_error [of fmtv io fw payload w] saveToFile_error [of enc io ms w]
    by blast
qed

theorem sink_error_propagation_witness:
  "fst (WriteMessage (\<lambda>s. s) example_io_denied (NewFileWriter ''mqtt-trace.log'')
          example_payload example_world)
     = Some (Wrap ''failed to open output file: '' ''permission denied'')
   \<and> fst (WriteMessage (\<lambda>s. s) example_io_short (NewFileWriter ''mqtt-trace.log'')
          example_payload example_world)
     = Some (Wrap ''failed to write to file: '' ''no space left on device'')
   \<and> fst (WriteMessage (\<lambda>s. s) example_io (NewFileWriter ''mqtt-trace.log'')
          example_payload example_world) = None
   \<and> fst (saveToFile example_enc example_io_denied
          (NewMessageStore ''mqtt-trace.json'') example_world)
     = Some (Wrap ''failed to create output file: '' ''permission denied'')
   \<and> fst (saveToFile example_enc example_io_short
          (NewMessageStore ''mqtt-trace.json'') example_world)
     = Some (Wrap ''failed to encode JSON: '' ''no space left on device'')
   \<and> fst (saveToFile example_enc example_io
          (NewMessageStore ''mqtt-trace.json'') example_world) = None"
  using sink_error_propagation [of "\<lambda>s. s" example_io_denied "NewFileWriter ''mqtt-trace.log''"
      example_payload example_world example_enc "NewMessageStore ''mqtt-trace.json''" example_payload]
    sink_error_propagation [of "\<lambda>s. s" example_io_short "NewFileWriter ''mqtt-trace.log''"
      example_payload example_world example_enc "NewMessageStore ''mqtt-trace.json''" example_payload]
    sink_error_propagation [of "\<lambda>s. s" example_io "NewFileWriter ''mqtt-trace.log''"
      example_payload example_world example_enc "NewMessageStore ''mqtt-trace.json''" example_payload]
  by (simp add: example_io_def example_io_denied_def example_io_short_def example_enc_def)

text \<open>
  C7. Decoding failures never reach the sink. When \<^verbatim>\<open>json.Unmarshal\<close> fails, either
  handler logs the failure and returns with the sink's state and the world as they were: no
  system call is made. When it succeeds, the handler leaves the state and the world that
  the sink's call on the decoded payload leaves. So the sink is invoked (a system call is
  made; for the store, a record is added) exactly when decoding succeeds.
\<close>

theorem messageHandler_decode_gate:
  fixes unmarshal :: "string \<Rightarrow> 'e + (string \<rightharpoonup> 'v)"
  shows "(\<forall>err. unmarshal (msg_Payload msg) = Inl err \<longrightarrow>
            messageHandler unmarshal fmtv io writer msg w =
              (LogUnmarshalError (msg_Topic msg) err, writer, w)
          \<and> messageHandler_store unmarshal enc io store msg w =
              (LogUnmarshalError (msg_Topic msg) err, store, w))
       \<and> (\<forall>payload. unmarshal (msg_Payload msg) = Inr payload \<longrightarrow>
            snd (messageHandler unmarshal fmtv io writer msg w) =
              snd (WriteMessage fmtv io writer payload w)
          \<and> snd (messageHandler_store unmarshal enc io store msg w) =
              snd (AddMessage enc io store payload w))
       \<and> (syscalls (snd (snd (messageHandler unmarshal fmtv io writer msg w))) \<noteq> syscalls w) =
            (\<exists>payload. unmarshal (msg_Payload msg) = Inr payload)
       \<and> (syscalls (snd (snd (messageHandler_store unmarshal enc io store msg w))) \<noteq> syscalls w) =
            (\<exists>payload. unmarshal (msg_Payload msg) = Inr payload)
       \<and> (messages (fst (snd (messageHandler_store unmarshal enc io store msg w))) \<noteq> messages store) =
            (\<exists>payload. unmarshal (msg_Payload msg) = Inr payload)"
proof (cases "unmarshal (msg_Payload msg)")
  case (Inl err)
  then show ?thesis
    by (simp add: messageHandler_def messageHandler_store_def)
next
  case (Inr payload)
  have a: "snd (messageHandler unmarshal fmtv io writer msg w) =
             snd (WriteMessage fmtv io writer payload w)"
    by (simp add: messageHandler_def Inr split: prod.splits option.splits)
  have b: "snd (messageHandler_store unmarshal enc io store msg w) =
             snd (AddMessage enc io store payload w)"
    by (simp add: messageHandler_store_def Inr split: prod.splits option.splits)
  have c: "messages (fst (snd (AddMessage enc io store payload w))) \<noteq> messages store"
    by (simp add: AddMessage_store)
  show ?thesis
    using WriteMessage_syscalls_grow [of fmtv io writer payload w]
      AddMessage_syscalls_grow [of enc io store payload w] c
    by (simp add: a b Inr)
qed

theorem messageHandler_decode_gate_witness:
  "messageHandler example_unmarshal (\<lambda>s. s) example_io (NewFileWriter ''mqtt-trace.log'')
       \<lparr>msg_Topic = ''home/BTtoMQTT/A4C138DBBC6F'', msg_Payload = ''not json''\<rparr> example_world
     = (LogUnmarshalError ''home/BTtoMQTT/A4C138DBBC6F'' ''invalid character'',
        NewFileWriter ''mqtt-trace.log'', example_world)
   \<and> messageHandler_store example_unmarshal example_enc example_io
       (NewMessageStore ''mqtt-trace.json'')
       \<lparr>msg_Topic = ''home/BTtoMQTT/A4C138DBBC6F'', msg_Payload = ''not json''\<rparr> example_world
     = (LogUnmarshalError ''home/BTtoMQTT/A4C138DBBC6F'' ''invalid character'',
        NewMessageStore ''mqtt-trace.json'', example_world)
   \<and> snd (messageHandler_store example_unmarshal example_enc example_io
       (NewMessageStore ''mqtt-trace.json'')
       \<lparr>msg_Topic = ''home/BTtoMQTT/A4C138DBBC6F'', msg_Payload = ''{}''\<rparr> example_world)
     = snd (AddMessage example_enc example_io (NewMessageStore ''mqtt-trace.json'')
         Map.empty example_world)"
  using messageHandler_decode_gate [of example_unmarshal
      "\<lparr>msg_Topic = ''home/BTtoMQTT/A4C138DBBC6F'', msg_Payload = ''not json''\<rparr>"
      "\<lambda>s. s" example_io "NewFileWriter ''mqtt-trace.log''" example_world
      example_enc "NewMessageStore ''mqtt-trace.json''"]
    messageHandler_decode_gate [of example_unmarshal
      "\<lparr>msg_Topic = ''home/BTtoMQTT/A4C138DBBC6F'', msg_Payload = ''{}''\<rparr>"
      "\<lambda>s. s" example_io "NewFileWriter ''mqtt-trace.log''" example_world
      example_enc "NewMessageStore ''mqtt-trace.json''"]
  by (simp add: example_unmarshal_def)

text \<open>
  C9. The line sink retains nothing. After every \<^verbatim>\<open>WriteMessage\<close> call, failed or
  not, the \<^verbatim>\<open>FileWriter\<close> is what it was and as many file handles are open as before
  the call (the file that was opened has been closed); files at other paths are unchanged.
  When the open fails no file changes; when the call succeeds the output file has gained
  exactly the line; when the write stops short it has gained the bytes of the line that
  were written.
\<close>

theorem WriteMessage_no_retention:
  fixes payload :: "string \<rightharpoonup> 'v" and fmtv :: "'v \<Rightarrow> string" and io :: "'e sysres"
    and fw :: FileWriter and w :: world
  defines "line \<equiv> now io
     @ (if ''name'' \<in> dom payload then ''|name='' @ fmtv (the (payload ''name'')) else [])
     @ (if ''rssi'' \<in> dom payload then ''|rssi='' @ fmtv (the (payload ''rssi'')) else [])
     @ ''\<newline>''"
  defines "after \<equiv> snd (snd (WriteMessage fmtv io fw payload w))"
  shows "fst (snd (WriteMessage fmtv io fw payload w)) = fw
       \<and> handles after = handles w
       \<and> (\<forall>q. q \<noteq> filePath fw \<longrightarrow> files after q = files w q)
       \<and> (\<forall>e. open_res io = Failed e \<longrightarrow>
            files after = files w
          \<and> syscalls after = syscalls w @ [SysOpenAppend (filePath fw)])
       \<and> (open_res io = Done \<longrightarrow>
            syscalls after = syscalls w @ [SysOpenAppend (filePath fw),
              SysWrite (filePath fw) line, SysClose (filePath fw)])
       \<and> (open_res io = Done \<and> write_res io = Complete \<longrightarrow>
            files after (filePath fw) = Some (contents w (filePath fw) @ line))
       \<and> (\<forall>n e. open_res io = Done \<and> write_res io = Short n e \<longrightarrow>
            files after (filePath fw) = Some (contents w (filePath fw) @ take n line))"
proof (cases "open_res io")
  case Done
  have l: "line = now io @ (case payload ''name'' of None \<Rightarrow> [] | Some n \<Rightarrow> ''|name='' @ fmtv n)
            @ (case payload ''rssi'' of None \<Rightarrow> [] | Some r \<Rightarrow> ''|rssi='' @ fmtv r) @ ''\<newline>''"
    by (auto simp: line_def dom_def split: option.splits)
  show ?thesis
    unfolding after_def WriteMessage_opened [OF Done l, of fw w]
    by (simp add: Done)
next
  case (Failed e)
  show ?thesis
    unfolding after_def WriteMessage_open_failed [OF Failed, of fmtv fw payload w]
    by (simp add: Failed)
qed

theorem WriteMessage_no_retention_witness:
  "fst (snd (WriteMessage (\<lambda>s. s) example_io_short (NewFileWriter ''mqtt-trace.log'')
       example_payload example_world)) = NewFileWriter ''mqtt-trace.log''
   \<and> handles (snd (snd (WriteMessage (\<lambda>s. s) example_io_short (NewFileWriter ''mqtt-trace.log'')
       example_payload example_world))) = 0
   \<and> files (snd (snd (WriteMessage (\<lambda>s. s) example_io_short (NewFileWriter ''mqtt-trace.log'')
       example_payload example_world))) ''mqtt-trace.log'' = Some ''2024''
   \<and> files (snd (snd (WriteMessage (\<lambda>s. s) example_io_short (NewFileWriter ''mqtt-trace.log'')
       example_payload example_world))) ''other.log'' = None
   \<and> files (snd (snd (WriteMessage (\<lambda>s. s) example_io_denied (NewFileWriter ''mqtt-trace.log'')
       example_payload example_world))) = Map.empty
   \<and> files (snd (snd (WriteMessage (\<lambda>s. s) example_io (NewFileWriter ''mqtt-trace.log'')
       Map.empty example_world))) ''mqtt-trace.log'' = Some ''2024-01-15T10:30:45Z\<newline>''"
  using WriteMessage_no_retention [of "\<lambda>s. s" example_io_short "NewFileWriter ''mqtt-trace.log''"
      example_payload example_world]
    WriteMessage_no_retention [of "\<lambda>s. s" example_io_denied "NewFileWriter ''mqtt-trace.log''"
      example_payload example_world]
    WriteMessage_no_retention [of "\<lambda>s. s" example_io "NewFileWriter ''mqtt-trace.log''"
      Map.empty example_world]
  by (simp add: example_io_def example_io_denied_def example_io_short_def example_world_def
      NewFileWriter_def contents_def)

text \<open>
  C10. Validation in \<^verbatim>\<open>loadConfig\<close>, for either source file (\<open>lc\<close> is the function
  and \<open>dflt\<close> its default output name). After a successful read and a successful unmarshal
  into \<open>cfg\<close>, whatever conversions the decoder made, the function returns an error
  exactly when the broker is the empty string or the list of topics is empty, and returns
  \<open>cfg\<close> otherwise. When the file does not set \<^verbatim>\<open>mqtt.port\<close>, the port of \<open>cfg\<close> is
  what the decoder makes of the registered default, the integer 1883, so it is 1883 for a
  decoder that leaves this integer as it is; when the file does not set
  \<^verbatim>\<open>output_file\<close>, the output file of \<open>cfg\<close> is what the decoder makes of the default
  name, so it is the default name for a decoder that leaves this string as it is.
\<close>

theorem loadConfig_validation:
  fixes rd :: "string \<Rightarrow> string \<Rightarrow> 'e + (string \<rightharpoonup> 'y cval)"
  assumes which: "(lc, dflt) = (loadConfig, ''mqtt-trace.log'')
                \<or> (lc, dflt) = (loadConfig_store, ''mqtt-trace.json'')"
    and read: "rd configPath ''yaml'' = Inr kv"
    and unmarshalled:
      "viper_Unmarshal dec
         (reg\<lparr>v_configFile := configPath, v_configType := ''yaml'',
             v_defaults := (v_defaults reg)(''mqtt.port'' \<mapsto> CInt 1883,
                                          ''output_file'' \<mapsto> CString dflt),
             v_config := kv\<rparr>) = Inr cfg"
  shows "fst (lc rd dec configPath reg) =
           (if Broker (MQTT cfg) = [] then Inl (Plain ''mqtt.broker is required'')
            else if Topics (MQTT cfg) = [] then Inl (Plain ''at least one mqtt.topic is required'')
            else Inr cfg)
       \<and> (\<exists>err. fst (lc rd dec configPath reg) = Inl err) =
            (Broker (MQTT cfg) = [] \<or> Topics (MQTT cfg) = [])
       \<and> (kv ''mqtt.port'' = None \<longrightarrow>
            to_int dec ''mqtt.port'' (CInt 1883) = Inr (Port (MQTT cfg)))
       \<and> (kv ''mqtt.port'' = None \<and> to_int dec ''mqtt.port'' (CInt 1883) = Inr 1883 \<longrightarrow>
            Port (MQTT cfg) = 1883)
       \<and> (kv ''output_file'' = None \<longrightarrow>
            to_string dec ''output_file'' (CString dflt) = Inr (OutputFile cfg))
       \<and> (kv ''output_file'' = None \<and> to_string dec ''output_file'' (CString dflt) = Inr dflt \<longrightarrow>
            OutputFile cfg = dflt)"
proof -
  have lc: "lc = loadConfig_body dflt"
    using which by (auto simp: loadConfig_def loadConfig_store_def)
  have r: "fst (lc rd dec configPath reg) =
           (if Broker (MQTT cfg) = [] then Inl (Plain ''mqtt.broker is required'')
            else if Topics (MQTT cfg) = [] then Inl (Plain ''at least one mqtt.topic is required'')
            else Inr cfg)"
    using loadConfig_body_after_read [where rd = rd and configPath = configPath and kv = kv
        and dflt = dflt and dec = dec and reg = reg] read
    by (simp add: lc unmarshalled)
  have p: "to_int dec ''mqtt.port'' (CInt 1883) = Inr (Port (MQTT cfg))"
    if "kv ''mqtt.port'' = None"
    using viper_Unmarshal_fields(1) [OF unmarshalled] that
    by (simp add: field_int_def viper_find_def)
  have f: "to_string dec ''output_file'' (CString dflt) = Inr (OutputFile cfg)"
    if "kv ''output_file'' = None"
    using viper_Unmarshal_fields(2) [OF unmarshalled] that
    by (simp add: field_string_def viper_find_def)
  show ?thesis
    using p f by (auto simp: r)
qed

theorem loadConfig_validation_witness:
  "fst (loadConfig example_rd example_dec ''config.yaml'' example_viper) =
     Inr \<lparr>MQTT = \<lparr>Broker = ''localhost'', Port = 1883, Username = [], Password = [],
                  Topics = [''+/+/BTtoMQTT/A4C138DBBC6F'']\<rparr>,
          OutputFile = ''mqtt-trace.log''\<rparr>
   \<and> fst (loadConfig_store example_rd example_dec ''empty.yaml'' example_viper) =
     Inl (Plain ''mqtt.broker is required'')
   \<and> fst (loadConfig example_rd example_dec ''weak.yaml'' example_viper) =
     Inl (Plain ''at least one mqtt.topic is required'')
   \<and> map_sum id (\<lambda>cfg. sint (Port (MQTT cfg)))
       (fst (loadConfig example_rd example_dec ''big.yaml'' example_viper)) =
     Inr (- 9223372036854775808)"
proof -
  let ?cfg1 = "\<lparr>MQTT = \<lparr>Broker = ''localhost'', Port = 1883, Username = [], Password = [],
                  Topics = [''+/+/BTtoMQTT/A4C138DBBC6F'']\<rparr>,
          OutputFile = ''mqtt-trace.log''\<rparr>"
  let ?cfg2 = "\<lparr>MQTT = \<lparr>Broker = [], Port = 1883, Username = [], Password = [],
                  Topics = []\<rparr>,
          OutputFile = ''mqtt-trace.json''\<rparr>"
  let ?cfg3 = "\<lparr>MQTT = \<lparr>Broker = ''localhost'', Port = 8883, Username = [], Password = [],
                  Topics = []\<rparr>,
          OutputFile = ''out.log''\<rparr>"
  let ?kv1 = "[''mqtt.broker'' \<mapsto> CString ''localhost'',
             ''mqtt.topics'' \<mapsto> CStrings [''+/+/BTtoMQTT/A4C138DBBC6F'']] :: string \<rightharpoonup> bool cval"
  let ?kv3 = "[''mqtt.broker'' \<mapsto> CString ''localhost'', ''mqtt.port'' \<mapsto> CString ''8883'',
             ''mqtt.topics'' \<mapsto> CString [], ''output_file'' \<mapsto> CString ''out.log'']
             :: string \<rightharpoonup> bool cval"
  let ?cfg4 = "\<lparr>MQTT = \<lparr>Broker = ''localhost'', Port = 9223372036854775808, Username = [],
                  Password = [], Topics = [''#'']\<rparr>,
          OutputFile = ''mqtt-trace.log''\<rparr>"
  let ?kv4 = "[''mqtt.broker'' \<mapsto> CString ''localhost'',
             ''mqtt.port'' \<mapsto> CInt 9223372036854775808,
             ''mqtt.topics'' \<mapsto> CStrings [''#'']] :: string \<rightharpoonup> bool cval"
  have r4: "example_rd ''big.yaml'' ''yaml'' = Inr ?kv4"
    by (simp add: example_rd_def)
  have u4: "viper_Unmarshal example_dec
         (example_viper\<lparr>v_configFile := ''big.yaml'', v_configType := ''yaml'',
             v_defaults := (v_defaults example_viper)(''mqtt.port'' \<mapsto> CInt 1883,
                                          ''output_file'' \<mapsto> CString ''mqtt-trace.log''),
             v_config := ?kv4\<rparr>) = Inr ?cfg4"
    by (simp add: viper_Unmarshal_def field_string_def field_int_def field_strings_def
        viper_find_def example_viper_def example_dec_def err_of_def val_of_def)
  have r1: "example_rd ''config.yaml'' ''yaml'' = Inr ?kv1"
    by (simp add: example_rd_def)
  have r2: "example_rd ''empty.yaml'' ''yaml'' = Inr Map.empty"
    by (simp add: example_rd_def)
  have r3: "example_rd ''weak.yaml'' ''yaml'' = Inr ?kv3"
    by (simp add: example_rd_def)
  have u1: "viper_Unmarshal example_dec
         (example_viper\<lparr>v_configFile := ''config.yaml'', v_configType := ''yaml'',
             v_defaults := (v_defaults example_viper)(''mqtt.port'' \<mapsto> CInt 1883,
                                          ''output_file'' \<mapsto> CString ''mqtt-trace.log''),
             v_config := ?kv1\<rparr>) = Inr ?cfg1"
    by (simp add: viper_Unmarshal_def field_string_def field_int_def field_strings_def
        viper_find_def example_viper_def example_dec_def err_of_def val_of_def)
  have u2: "viper_Unmarshal example_dec
         (example_viper\<lparr>v_configFile := ''empty.yaml'', v_configType := ''yaml'',
             v_defaults := (v_defaults example_viper)(''mqtt.port'' \<mapsto> CInt 1883,
                                          ''output_file'' \<mapsto> CString ''mqtt-trace.json''),
             v_config := Map.empty\<rparr>) = Inr ?cfg2"
    by (simp add: viper_Unmarshal_def field_string_def field_int_def field_strings_def
        viper_find_def example_viper_def example_dec_def err_of_def val_of_def)
  have u3: "viper_Unmarshal example_dec
         (example_viper\<lparr>v_configFile := ''weak.yaml'', v_configType := ''yaml'',
             v_defaults := (v_defaults example_viper)(''mqtt.port'' \<mapsto> CInt 1883,
                                          ''output_file'' \<mapsto> CString ''mqtt-trace.log''),
             v_config := ?kv3\<rparr>) = Inr ?cfg3"
    by (simp add: viper_Unmarshal_def field_string_def field_int_def field_strings_def
        viper_find_def example_viper_def example_dec_def err_of_def val_of_def)
  show ?thesis
    using loadConfig_validation [where lc = loadConfig and dflt = "''mqtt-trace.log''"
        and rd = example_rd and configPath = "''config.yaml''" and dec = example_dec
        and reg = example_viper and cfg = ?cfg1 and kv = ?kv1]
      loadConfig_validation [where lc = loadConfig_store and dflt = "''mqtt-trace.json''"
        and rd = example_rd and configPath = "''empty.yaml''" and dec = example_dec
        and reg = example_viper and cfg = ?cfg2 and kv = Map.empty]
      loadConfig_validation [where lc = loadConfig and dflt = "''mqtt-trace.log''"
        and rd = example_rd and configPath = "''weak.yaml''" and dec = example_dec
        and reg = example_viper and cfg = ?cfg3 and kv = ?kv3]
      loadConfig_validation [where lc = loadConfig and dflt = "''mqtt-trace.log''"
        and rd = example_rd and configPath = "''big.yaml''" and dec = example_dec
        and reg = example_viper and cfg = ?cfg4 and kv = ?kv4]
      r1 r2 r3 r4 u1 u2 u3 u4
    by simp
qed

end
